theory Spec2Isabelle
  imports Complex_Main "HOL-Library.AList" "HOL-Library.Multiset"
begin

section \<open>Python values and strings\<close>

text \<open>
  A Python \<open>str\<close> is modelled as a HOL \<open>string\<close>, one \<open>char\<close> per code point
  below 256. The values that the aspect pipeline handles are \<open>None\<close>, integers, strings,
  lists and tuples; equality on them is structural, as Python's \<open>==\<close> is on these types.
  Lists are the only unhashable values among them.
\<close>

datatype pyval = PNone | PInt int | PStr string | PList "pyval list" | PTuple "pyval list"

fun hashable :: "pyval \<Rightarrow> bool" where
  "hashable (PList xs) = False"
| "hashable (PTuple xs) = list_all hashable xs"
| "hashable PNone = True"
| "hashable (PInt n) = True"
| "hashable (PStr s) = True"

text \<open>The exceptions the modelled code can raise.\<close>

datatype error = KeyError string | TypeError | ValueError | SyntaxError | IOError

text \<open>
  \<open>str.isspace\<close> on one character, for code points below 256: the ASCII controls
  \<open>\t \n \v \f \r\<close>, the separators \<open>0x1C\<close> to \<open>0x1F\<close>, the blank, \<open>NEL\<close> and
  the no-break space.
\<close>

definition isspace :: "char \<Rightarrow> bool" where
  "isspace c = (c \<in> set [CHR 0x09, CHR 0x0A, CHR 0x0B, CHR 0x0C, CHR 0x0D,
                          CHR 0x1C, CHR 0x1D, CHR 0x1E, CHR 0x1F, CHR 0x20,
                          CHR 0x85, CHR 0xA0])"

text \<open>\<open>s.strip()\<close>: whitespace removed at both ends.\<close>

definition str_strip :: "string \<Rightarrow> string" where
  "str_strip s = rev (dropWhile isspace (rev (dropWhile isspace s)))"

text \<open>
  \<open>s.split(sep)\<close> for a one-character separator: the pieces between the separators, in
  order; the empty string gives one empty piece, and \<open>n\<close> separators give \<open>n + 1\<close> pieces.
\<close>

fun str_split :: "char \<Rightarrow> string \<Rightarrow> string list" where
  "str_split sep [] = [[]]"
| "str_split sep (c # cs) =
     (let ps = str_split sep cs
      in if c = sep then [] # ps else (c # hd ps) # tl ps)"

definition startswith :: "string \<Rightarrow> string \<Rightarrow> bool" where
  "startswith s p = (take (length p) s = p)"

definition endswith :: "string \<Rightarrow> string \<Rightarrow> bool" where
  "endswith s p = (length p \<le> length s \<and> drop (length s - length p) s = p)"

section \<open>Decoding a list literal\<close>

text \<open>
  \<open>ast.literal_eval\<close> belongs to the Python standard library, not to the repository.
  Every function below that calls it takes the decoder as a parameter \<open>lit\<close>, and the
  general theorems hold for any decoder. The concrete decoder \<open>literal_eval\<close> defined
  here covers one fragment of the literal syntax and is used only in the evaluated
  examples: a list display \<open>[ item, ..., item ]\<close> whose items are string literals in
  single or double quotes without backslash or line break, separated by commas, with
  blanks and tabs allowed between tokens and a trailing comma allowed. On this fragment it
  returns the list; an unterminated string literal and a misplaced comma are syntax
  errors, as they are in Python. Adjacent string literals, escapes, prefixes, numbers,
  names, nested displays and all other literal forms lie outside the fragment: there this
  decoder answers \<open>SyntaxError\<close> whatever Python does, and the examples never use such
  input.
\<close>

datatype token = LBRACK | RBRACK | COMMA | STRING string

function tokenize :: "string \<Rightarrow> token list option" where
  "tokenize [] = Some []"
| "tokenize (c # cs) =
     (if c = CHR ''['' then map_option ((#) LBRACK) (tokenize cs)
      else if c = CHR '']'' then map_option ((#) RBRACK) (tokenize cs)
      else if c = CHR '','' then map_option ((#) COMMA) (tokenize cs)
      else if c = CHR '' '' \<or> c = CHR 0x09 then tokenize cs
      else if c = CHR 0x27 \<or> c = CHR 0x22 then
        (let body = takeWhile (\<lambda>d. d \<noteq> c) cs;
             rest = dropWhile (\<lambda>d. d \<noteq> c) cs
         in if rest = [] \<or> CHR 0x5C \<in> set body \<or> CHR 0x0A \<in> set body then None
            else map_option ((#) (STRING body)) (tokenize (tl rest)))
      else None)"
  by pat_completeness auto
termination
proof (relation "measure length")
  fix c :: char and cs body rest :: string
  assume "rest = dropWhile (\<lambda>d. d \<noteq> c) cs"
  moreover have "length (dropWhile (\<lambda>d. d \<noteq> c) cs) \<le> length cs"
    by (rule length_dropWhile_le)
  ultimately show "(tl rest, c # cs) \<in> measure length"
    by simp
qed simp_all

text \<open>The items of a list display, read after the opening bracket.\<close>

fun items :: "token list \<Rightarrow> pyval list option" where
  "items [RBRACK] = Some []"
| "items [STRING s, RBRACK] = Some [PStr s]"
| "items (STRING s # COMMA # ts) = map_option ((#) (PStr s)) (items ts)"
| "items ts = None"

definition literal_eval :: "string \<Rightarrow> error + pyval" where
  "literal_eval s =
     (case tokenize (dropWhile (\<lambda>c. c = CHR '' '' \<or> c = CHR 0x09) s) of
        Some (LBRACK # ts) \<Rightarrow>
          (case items ts of Some xs \<Rightarrow> Inr (PList xs) | None \<Rightarrow> Inl SyntaxError)
      | _ \<Rightarrow> Inl SyntaxError)"

section \<open>The aspect field parsers\<close>

text \<open>
  A cell of the raw \<open>aspects\<close> column as \<open>pandas.read_csv\<close> delivers it: the missing
  value \<open>NaN\<close>, a string, or another scalar (a number or a truth value), which this code
  only ever inspects through \<open>isinstance(x, str)\<close>, \<open>pd.notnull(x)\<close> and \<open>str(x)\<close>; the
  scalar is kept as the text \<open>str(x)\<close> gives.
\<close>

datatype cell = CNaN | CStr string | COther string

text \<open>
  The comprehension \<^verbatim>\<open>[a.strip() for a in val.split(',') if a.strip()]\<close> of
  \<open>parse_aspects\<close>.
\<close>

definition comma_split :: "string \<Rightarrow> string list" where
  "comma_split val = map str_strip (filter (\<lambda>a. str_strip a \<noteq> []) (str_split CHR '','' val))"

text \<open>
  \<open>parse_aspects\<close> of \<open>pages/1_Data_Upload.py\<close> (defined twice there, with the same
  body). The \<open>try\<close> block is \<open>parse_aspects_body\<close>; \<open>except Exception: return []\<close> turns
  every exception of the body into the empty list.
\<close>

definition parse_aspects_body :: "(string \<Rightarrow> error + pyval) \<Rightarrow> string \<Rightarrow> error + pyval" where
  "parse_aspects_body lit val =
     (if startswith val ''['' \<and> endswith val '']'' then lit val
      else Inr (PList (map PStr (comma_split val))))"

definition parse_aspects :: "(string \<Rightarrow> error + pyval) \<Rightarrow> string \<Rightarrow> error + pyval" where
  "parse_aspects lit val =
     (case parse_aspects_body lit val of Inl e \<Rightarrow> Inr (PList []) | Inr v \<Rightarrow> Inr v)"

text \<open>
  The function applied to each cell of \<open>df['aspects']\<close> on the upload page:
  \<^verbatim>\<open>lambda x: parse_aspects(str(x)) if pd.notnull(x) else []\<close>.
\<close>

definition aspects_list_upload :: "(string \<Rightarrow> error + pyval) \<Rightarrow> cell \<Rightarrow> error + pyval" where
  "aspects_list_upload lit x =
     (case x of CNaN \<Rightarrow> Inr (PList [])
      | CStr s \<Rightarrow> parse_aspects lit s
      | COther s \<Rightarrow> parse_aspects lit s)"

text \<open>
  \<open>process_csv\<close> of \<open>utils.py\<close>, the part that derives \<open>aspects_list\<close>: on a column of
  dtype \<open>object\<close>, \<open>.str.split(',')\<close> gives a list for a string cell and \<open>NaN\<close> for any
  other cell, and the lambda strips each piece of a list and maps everything else to the
  empty list.
\<close>

definition process_csv_cell :: "cell \<Rightarrow> string list" where
  "process_csv_cell x =
     (case x of CStr s \<Rightarrow> map str_strip (str_split CHR '','' s) | _ \<Rightarrow> [])"

text \<open>
  The frame handed to \<open>process_csv\<close> after \<open>pd.read_csv\<close>: its column names, whether the
  \<open>aspects\<close> column has dtype \<open>object\<close>, and the cells of that column. The result is the
  new \<open>aspects_list\<close> column, or \<open>None\<close> when the function reports an error and returns
  \<open>None\<close>.
\<close>

record review_frame =
  rf_columns :: "string list"
  rf_dtype_object :: bool
  rf_aspects :: "cell list"

definition process_csv :: "(error + review_frame) \<Rightarrow> string list list option" where
  "process_csv uploaded =
     (case uploaded of Inl e \<Rightarrow> None
      | Inr df \<Rightarrow>
          if filter (\<lambda>col. col \<notin> set (rf_columns df))
               [''review_id'', ''review_text'', ''category'', ''aspects''] \<noteq> [] then None
          else if rf_dtype_object df then Some (map process_csv_cell (rf_aspects df))
          else None)"

section \<open>The category collection\<close>

text \<open>
  One row of the category frame, with the columns the analysis reads: \<open>name\<close>,
  \<open>aspectsCount\<close> (an integer column), the raw \<open>aspects\<close> cell and the derived
  \<open>aspects_parsed\<close> cell. A frame is the list of its column names and its rows in order;
  a field whose column is not listed is never read, because reading a missing column
  raises \<open>KeyError\<close>. The cells of \<open>aspectsCount\<close> are integers and \<open>name\<close> holds
  strings, as the category records do. The frame also carries the dtype pandas gave to the
  column \<open>aspectsCount\<close>: \<open>int64\<close> when \<open>pd.read_csv\<close> read integers, \<open>object\<close> when it
  found nothing to infer a type from, as in a CSV file that has a header and no data row.
  The dtype changes nothing for the comparisons and the mean of the page header;
  \<open>df.nlargest\<close> rejects a column of dtype \<open>object\<close> with \<open>TypeError\<close>.
\<close>

datatype dtype = Int64 | Object

record row =
  name :: string
  aspectsCount :: int
  aspects :: cell
  aspects_parsed :: pyval

record dataframe =
  columns :: "string list"
  aspectsCount_dtype :: dtype
  rows :: "row list"

text \<open>
  The lambda of \<open>load_category_data\<close>:
  \<^verbatim>\<open>ast.literal_eval(x) if isinstance(x, str) and x.strip().startswith("[") else []\<close>.
\<close>

definition parse_on_load :: "(string \<Rightarrow> error + pyval) \<Rightarrow> cell \<Rightarrow> error + pyval" where
  "parse_on_load lit x =
     (case x of
        CStr s \<Rightarrow> if startswith (str_strip s) ''['' then lit s else Inr (PList [])
      | _ \<Rightarrow> Inr (PList []))"

text \<open>
  \<open>df['aspects'].apply(f)\<close> stored as \<open>df['aspects_parsed']\<close>: \<open>f\<close> runs on the cells in
  row order and the first exception ends the whole assignment.
\<close>

fun apply_aspects :: "(cell \<Rightarrow> error + pyval) \<Rightarrow> row list \<Rightarrow> error + row list" where
  "apply_aspects f [] = Inr []"
| "apply_aspects f (r # rs) =
     (case f (aspects r) of
        Inl e \<Rightarrow> Inl e
      | Inr v \<Rightarrow>
          (case apply_aspects f rs of
             Inl e \<Rightarrow> Inl e
           | Inr rs' \<Rightarrow> Inr (r\<lparr>aspects_parsed := v\<rparr> # rs')))"

definition add_column :: "string \<Rightarrow> string list \<Rightarrow> string list" where
  "add_column c cs = (if c \<in> set cs then cs else cs @ [c])"

text \<open>
  \<open>load_category_data\<close>. The outcome of \<open>pd.read_csv\<close> is the argument \<open>csv\<close>;
  \<open>df.sample(n, random_state=42)\<close> is the parameter \<open>sample\<close> (it raises \<open>ValueError\<close>
  for a negative \<open>n\<close>). The \<open>try\<close> block is \<open>load_category_data_body\<close>; the handler
  reports the error and returns \<open>None\<close>.
\<close>

definition load_category_data_body ::
  "(string \<Rightarrow> error + pyval) \<Rightarrow> (nat \<Rightarrow> row list \<Rightarrow> row list) \<Rightarrow>
   (error + dataframe) \<Rightarrow> int \<Rightarrow> error + dataframe" where
  "load_category_data_body lit sample csv max_rows =
     (case csv of
        Inl e \<Rightarrow> Inl e
      | Inr df \<Rightarrow>
          (case (if int (length (rows df)) > max_rows
                 then (if max_rows < 0 then Inl ValueError
                       else Inr (df\<lparr>rows := sample (nat max_rows) (rows df)\<rparr>))
                 else Inr df) of
             Inl e \<Rightarrow> Inl e
           | Inr df1 \<Rightarrow>
               if ''aspects'' \<in> set (columns df1) then
                 (case apply_aspects (parse_on_load lit) (rows df1) of
                    Inl e \<Rightarrow> Inl e
                  | Inr rs \<Rightarrow>
                      Inr (df1\<lparr>columns := add_column ''aspects_parsed'' (columns df1),
                               rows := rs\<rparr>))
               else Inr df1))"

definition load_category_data ::
  "(string \<Rightarrow> error + pyval) \<Rightarrow> (nat \<Rightarrow> row list \<Rightarrow> row list) \<Rightarrow>
   (error + dataframe) \<Rightarrow> int \<Rightarrow> dataframe option" where
  "load_category_data lit sample csv max_rows =
     (case load_category_data_body lit sample csv max_rows of
        Inl e \<Rightarrow> None
      | Inr df \<Rightarrow> Some df)"

section \<open>Counting aspects\<close>

text \<open>
  A \<open>collections.Counter\<close> is a dictionary, and a Python dictionary keeps its keys in
  insertion order: it is modelled as an association list with distinct keys, where
  \<open>AList.update\<close> overwrites the value of a present key in place and appends a new key.
  \<open>Counter.update(iterable)\<close> adds one to the count of each element in turn and raises
  \<open>TypeError\<close> at an unhashable element.
\<close>

type_synonym counter = "(pyval \<times> nat) list"

definition counter_add :: "counter \<Rightarrow> pyval \<Rightarrow> counter" where
  "counter_add c x = AList.update x (case map_of c x of None \<Rightarrow> 1 | Some n \<Rightarrow> n + 1) c"

fun counter_update :: "counter \<Rightarrow> pyval list \<Rightarrow> error + counter" where
  "counter_update c [] = Inr c"
| "counter_update c (x # xs) =
     (if hashable x then counter_update (counter_add c x) xs else Inl TypeError)"

text \<open>
  \<open>most_common()\<close> is \<open>sorted(items, key=count, reverse=True)\<close>, a stable sort;
  \<open>most_common(n)\<close> is \<open>heapq.nlargest(n, items, key=count)\<close>, which gives the first \<open>n\<close>
  entries of the same order and nothing for \<open>n \<le> 0\<close>.
\<close>

definition most_common :: "counter \<Rightarrow> counter" where
  "most_common c = sort_key (\<lambda>p. - int (snd p)) c"

definition most_common_n :: "int \<Rightarrow> counter \<Rightarrow> counter" where
  "most_common_n n c = (if n \<le> 0 then [] else take (nat n) (most_common c))"

text \<open>
  The counting loop shared by both analysis functions:
  \<^verbatim>\<open>for aspects_list in df['aspects_parsed']:
      if isinstance(aspects_list, list): aspect_counts.update(aspects_list)\<close>
\<close>

fun count_aspects :: "counter \<Rightarrow> pyval list \<Rightarrow> error + counter" where
  "count_aspects c [] = Inr c"
| "count_aspects c (PList xs # vs) =
     (case counter_update c xs of Inl e \<Rightarrow> Inl e | Inr c' \<Rightarrow> count_aspects c' vs)"
| "count_aspects c (v # vs) = count_aspects c vs"

text \<open>The frequency table: a frame with the two columns \<open>aspect\<close> and \<open>count\<close>.\<close>

record freq_table =
  aspect_col :: "pyval list"
  count_col :: "nat list"

text \<open>
  \<open>analyze_category_aspects\<close>, the function under its \<open>st.cache_data\<close> decorator; the
  decorator belongs to the streamlit library and is no part of the model. The result
  \<open>Inr None\<close> is the explicit \<open>None\<close>, \<open>Inl e\<close> an exception that leaves the function.
\<close>

definition analyze_category_aspects :: "dataframe option \<Rightarrow> error + freq_table option" where
  "analyze_category_aspects df =
     (case df of
        None \<Rightarrow> Inr None
      | Some d \<Rightarrow>
          if ''aspects_parsed'' \<notin> set (columns d) then Inr None
          else (case count_aspects [] (map aspects_parsed (rows d)) of
                  Inl e \<Rightarrow> Inl e
                | Inr aspect_counts \<Rightarrow>
                    Inr (Some \<lparr>aspect_col = map fst (most_common aspect_counts),
                               count_col = map snd (most_common aspect_counts)\<rparr>)))"

text \<open>
  The least-used view of \<open>pages/3_Category_Analysis.py\<close>:
  \<^verbatim>\<open>bottom_n = min(20, len(aspect_freq))
  bottom_aspects = aspect_freq.sort_values(by="count", ascending=True).head(bottom_n)\<close>
  The rows of the table are pairs of aspect and count. \<open>sort_values\<close> runs with its
  default \<open>kind='quicksort'\<close>, which pandas documents as not stable; the sort is the
  parameter \<open>sort_by_count\<close>.
\<close>

definition bottom_aspects ::
  "((pyval \<times> nat) list \<Rightarrow> (pyval \<times> nat) list) \<Rightarrow> freq_table \<Rightarrow> (pyval \<times> nat) list" where
  "bottom_aspects sort_by_count aspect_freq =
     (let bottom_n = min 20 (length (aspect_col aspect_freq))
      in take bottom_n (sort_by_count (zip (aspect_col aspect_freq) (count_col aspect_freq))))"

section \<open>The presence matrix\<close>

text \<open>
  \<open>df.nlargest(n, 'aspectsCount')\<close> with the default \<open>keep='first'\<close>. pandas gives no
  row for \<open>n \<le> 0\<close>. For \<open>n\<close> below the number of rows it selects the \<open>n\<close> largest by a
  stable merge sort: the first \<open>n\<close> rows in descending order of the column, rows with equal
  values in their original order. For \<open>n\<close> at or above the number of rows it returns
  \<open>sort_values(ascending=False).head(n)\<close>, and \<open>sort_values\<close> runs its default
  \<open>kind='quicksort'\<close>, which pandas documents as not stable: the order it gives to equal
  values is left to NumPy. This sort is the parameter \<open>sort_values\<close>; what pandas
  promises of it is stated as \<open>sorts_descending\<close> below.
\<close>

definition nlargest :: "(row list \<Rightarrow> row list) \<Rightarrow> int \<Rightarrow> row list \<Rightarrow> row list" where
  "nlargest sort_values n rs =
     (if n \<le> 0 then []
      else if n \<ge> int (length rs) then take (nat n) (sort_values rs)
      else take (nat n) (sort_key (\<lambda>r. - aspectsCount r) rs))"

text \<open>
  One cell: \<open>df.loc[df['name'] == category, 'aspects_parsed'].values\<close> holds the parsed
  cells of all rows with that name; the first of them decides.
\<close>

definition presence :: "row list \<Rightarrow> pyval \<Rightarrow> string \<Rightarrow> int" where
  "presence rs aspect category =
     (case filter (\<lambda>r. name r = category) rs of
        [] \<Rightarrow> 0
      | r # _ \<Rightarrow>
          (case aspects_parsed r of
             PList xs \<Rightarrow> if aspect \<in> set xs then 1 else 0
           | _ \<Rightarrow> 0))"

text \<open>
  One row of the matrix: the dictionary \<open>{'aspect': aspect}\<close>, then \<open>row[category] = ...\<close>
  for each selected category in order.
\<close>

definition matrix_row :: "row list \<Rightarrow> string list \<Rightarrow> pyval \<Rightarrow> (string \<times> pyval) list" where
  "matrix_row rs categories aspect =
     foldl (\<lambda>row category. AList.update category (PInt (presence rs aspect category)) row)
       [(''aspect'', aspect)] categories"

text \<open>
  \<open>pd.DataFrame(list_of_dicts)\<close>: the columns are the keys of the dictionaries in order of
  first appearance, so an empty list gives a frame without columns.
\<close>

record matrix =
  matrix_columns :: "string list"
  matrix_records :: "(string \<times> pyval) list list"

definition first_seen :: "'a list \<Rightarrow> 'a list" where
  "first_seen xs = rev (remdups (rev xs))"

definition DataFrame :: "(string \<times> pyval) list list \<Rightarrow> matrix" where
  "DataFrame matrix_data =
     \<lparr>matrix_columns = first_seen (concat (map (map fst) matrix_data)),
      matrix_records = matrix_data\<rparr>"

text \<open>
  \<open>create_aspect_category_matrix\<close>, the function under its decorator. \<open>df.nlargest\<close> needs
  the column \<open>aspectsCount\<close> and, before it looks at \<open>n\<close> or at any row, checks that the
  dtype of the column is numeric; \<open>top_categories['name']\<close> is evaluated inside the loop over
  the selected aspects, so a missing \<open>name\<close> column raises only when an aspect is selected.
\<close>

definition create_aspect_category_matrix ::
  "(row list \<Rightarrow> row list) \<Rightarrow> dataframe option \<Rightarrow> int \<Rightarrow> int \<Rightarrow> error + matrix option" where
  "create_aspect_category_matrix sort_values df max_aspects max_categories =
     (case df of
        None \<Rightarrow> Inr None
      | Some d \<Rightarrow>
          if ''aspects_parsed'' \<notin> set (columns d) then Inr None
          else (case count_aspects [] (map aspects_parsed (rows d)) of
                  Inl e \<Rightarrow> Inl e
                | Inr aspect_counts \<Rightarrow>
                    (let top_aspects = map fst (most_common_n max_aspects aspect_counts)
                     in if ''aspectsCount'' \<notin> set (columns d) then Inl (KeyError ''aspectsCount'')
                        else if aspectsCount_dtype d = Object then Inl TypeError
                        else (let top_categories = nlargest sort_values max_categories (rows d)
                              in if top_aspects \<noteq> [] \<and> ''name'' \<notin> set (columns d)
                                 then Inl (KeyError ''name'')
                                 else Inr (Some (DataFrame
                                        (map (matrix_row (rows d) (map name top_categories))
                                           top_aspects)))))))"

section \<open>Summary statistics\<close>

text \<open>
  The header of \<open>pages/3_Category_Analysis.py\<close>. \<open>Series.mean()\<close> is a float, \<open>NaN\<close> for
  an empty column; the quotient is taken exactly here, where float64 rounds it.
\<close>

datatype pyfloat = FNaN | Float real

definition mean :: "int list \<Rightarrow> pyfloat" where
  "mean xs = (if xs = [] then FNaN else Float (real_of_int (sum_list xs) / real (length xs)))"

record summary =
  total_categories :: int
  categories_with_aspects :: int
  categories_without_aspects :: int
  avg_aspects :: pyfloat

definition summary_statistics :: "dataframe \<Rightarrow> error + summary" where
  "summary_statistics category_data =
     (if ''aspectsCount'' \<notin> set (columns category_data) then Inl (KeyError ''aspectsCount'')
      else (let total = int (length (rows category_data));
                with_aspects = int (length (filter (\<lambda>r. aspectsCount r > 0) (rows category_data)))
            in Inr \<lparr>total_categories = total,
                    categories_with_aspects = with_aspects,
                    categories_without_aspects = total - with_aspects,
                    avg_aspects = mean (map aspectsCount (rows category_data))\<rparr>))"

section \<open>Notions used to state the properties\<close>

text \<open>The number of aspect occurrences a parsed cell holds: its length when it is a list.\<close>

fun occurrences :: "pyval \<Rightarrow> nat" where
  "occurrences (PList xs) = length xs"
| "occurrences v = 0"

text \<open>
  A parsed cell that the counting loop can take: a list only of hashable elements, or no
  list at all.
\<close>

fun hashable_items :: "pyval \<Rightarrow> bool" where
  "hashable_items (PList xs) = list_all hashable xs"
| "hashable_items v = True"

text \<open>A raw cell that the load path decodes: a string whose stripped value starts with \<open>[\<close>.\<close>

definition bracketed :: "cell \<Rightarrow> bool" where
  "bracketed x = (case x of CStr s \<Rightarrow> startswith (str_strip s) ''['' | _ \<Rightarrow> False)"

text \<open>Whether an aspect occurs in a parsed cell: \<open>aspect in cell\<close> for a list, never otherwise.\<close>

fun occurs_in :: "pyval \<Rightarrow> pyval \<Rightarrow> bool" where
  "occurs_in a (PList xs) = (a \<in> set xs)"
| "occurs_in a v = False"

text \<open>The elements of a parsed cell, in order and as a set: those of a list, none otherwise.\<close>

fun list_items :: "pyval \<Rightarrow> pyval list" where
  "list_items (PList xs) = xs"
| "list_items v = []"

fun items_of :: "pyval \<Rightarrow> pyval set" where
  "items_of (PList xs) = set xs"
| "items_of v = {}"

text \<open>
  An argument on which the two analysis functions return: \<open>None\<close>, a frame without the
  column \<open>aspects_parsed\<close>, or a frame that has it together with the columns \<open>name\<close> and
  \<open>aspectsCount\<close> of a category record, the latter of dtype \<open>int64\<close>, and whose parsed lists
  hold hashable elements.
\<close>

definition well_typed :: "dataframe option \<Rightarrow> bool" where
  "well_typed df =
     (case df of
        None \<Rightarrow> True
      | Some d \<Rightarrow>
          ''aspects_parsed'' \<notin> set (columns d)
          \<or> (''name'' \<in> set (columns d) \<and> ''aspectsCount'' \<in> set (columns d)
              \<and> aspectsCount_dtype d = Int64
              \<and> list_all (\<lambda>r. hashable_items (aspects_parsed r)) (rows d)))"

text \<open>
  What pandas promises of \<open>sort_values(ascending=False)\<close> on the column \<open>aspectsCount\<close>:
  the rows come back rearranged, in descending order of the column. The stable sort
  \<open>stable_descending\<close> is one such sort; on rows with pairwise different \<open>aspectsCount\<close>
  every such sort gives the same result.
\<close>

definition sorts_descending :: "(row list \<Rightarrow> row list) \<Rightarrow> bool" where
  "sorts_descending sort_values =
     (\<forall>rs. mset (sort_values rs) = mset rs
           \<and> sorted (map (\<lambda>r. - aspectsCount r) (sort_values rs)))"

definition stable_descending :: "row list \<Rightarrow> row list" where
  "stable_descending rs = sort_key (\<lambda>r. - aspectsCount r) rs"

text \<open>What pandas promises of \<open>sort_values(by="count", ascending=True)\<close> on the frequency table.\<close>

definition sorts_by_count :: "((pyval \<times> nat) list \<Rightarrow> (pyval \<times> nat) list) \<Rightarrow> bool" where
  "sorts_by_count sort_by_count =
     (\<forall>ps. mset (sort_by_count ps) = mset ps \<and> sorted (map snd (sort_by_count ps)))"

text \<open>
  The aspects that label the rows of the matrix: \<open>top_aspects\<close> of
  \<open>create_aspect_category_matrix\<close>, as a function of the frame and the cap.
\<close>

definition selected_aspects :: "dataframe \<Rightarrow> int \<Rightarrow> pyval list" where
  "selected_aspects d max_aspects =
     (case count_aspects [] (map aspects_parsed (rows d)) of
        Inl e \<Rightarrow> []
      | Inr aspect_counts \<Rightarrow> map fst (most_common_n max_aspects aspect_counts))"

subsection \<open>Example data\<close>

text \<open>
  The two categories of the end-to-end scenario as \<open>pd.read_csv\<close> delivers them, and the
  frame that loading them gives; a frame with one malformed bracketed cell; a loaded
  frame in which an aspect is repeated inside one list, and its matrix; a frame whose only
  category has a plain comma-separated aspect field, before and after loading; a frame
  whose only category is called \<open>aspect\<close>; a frame with all columns, an integer
  \<open>aspectsCount\<close> column and no row; the frame \<open>pd.read_csv\<close> delivers for a file that
  holds the header \<open>name,aspectsCount,aspects\<close> and no data row, before and after loading;
  a sampler that is never asked to cut, because the frames are small.
\<close>

definition example_csv :: dataframe where
  "example_csv =
     \<lparr>columns = [''name'', ''aspectsCount'', ''aspects''], aspectsCount_dtype = Int64,
      rows = [\<lparr>name = ''Electronics'', aspectsCount = 2,
               aspects = CStr ''['Product/Price','Service/Staff']'', aspects_parsed = PNone\<rparr>,
              \<lparr>name = ''Food'', aspectsCount = 1,
               aspects = CStr ''Product/Price'', aspects_parsed = PNone\<rparr>]\<rparr>"

definition example_loaded :: dataframe where
  "example_loaded =
     \<lparr>columns = [''name'', ''aspectsCount'', ''aspects'', ''aspects_parsed''],
      aspectsCount_dtype = Int64,
      rows = [\<lparr>name = ''Electronics'', aspectsCount = 2,
               aspects = CStr ''['Product/Price','Service/Staff']'',
               aspects_parsed = PList [PStr ''Product/Price'', PStr ''Service/Staff'']\<rparr>,
              \<lparr>name = ''Food'', aspectsCount = 1,
               aspects = CStr ''Product/Price'', aspects_parsed = PList []\<rparr>]\<rparr>"

definition malformed_csv :: dataframe where
  "malformed_csv =
     \<lparr>columns = [''name'', ''aspectsCount'', ''aspects''], aspectsCount_dtype = Int64,
      rows = [\<lparr>name = ''Electronics'', aspectsCount = 2,
               aspects = CStr ''['a, b]'', aspects_parsed = PNone\<rparr>]\<rparr>"

definition repeated_loaded :: dataframe where
  "repeated_loaded =
     \<lparr>columns = [''name'', ''aspectsCount'', ''aspects'', ''aspects_parsed''],
      aspectsCount_dtype = Int64,
      rows = [\<lparr>name = ''Electronics'', aspectsCount = 3,
               aspects = CStr ''['Product/Price','Service/Staff','Product/Price']'',
               aspects_parsed =
                 PList [PStr ''Product/Price'', PStr ''Service/Staff'', PStr ''Product/Price'']\<rparr>,
              \<lparr>name = ''Food'', aspectsCount = 1,
               aspects = CStr ''['Product/Price']'',
               aspects_parsed = PList [PStr ''Product/Price'']\<rparr>]\<rparr>"

definition no_sample :: "nat \<Rightarrow> row list \<Rightarrow> row list" where
  "no_sample n rs = rs"

definition repeated_matrix :: matrix where
  "repeated_matrix =
     \<lparr>matrix_columns = [''aspect'', ''Electronics'', ''Food''],
      matrix_records =
        [[(''aspect'', PStr ''Product/Price''), (''Electronics'', PInt 1), (''Food'', PInt 1)],
         [(''aspect'', PStr ''Service/Staff''), (''Electronics'', PInt 1), (''Food'', PInt 0)]]\<rparr>"

definition plain_csv :: dataframe where
  "plain_csv =
     \<lparr>columns = [''name'', ''aspectsCount'', ''aspects''], aspectsCount_dtype = Int64,
      rows = [\<lparr>name = ''Food'', aspectsCount = 1,
               aspects = CStr ''Product/Price'', aspects_parsed = PNone\<rparr>]\<rparr>"

definition plain_loaded :: dataframe where
  "plain_loaded =
     \<lparr>columns = [''name'', ''aspectsCount'', ''aspects'', ''aspects_parsed''],
      aspectsCount_dtype = Int64,
      rows = [\<lparr>name = ''Food'', aspectsCount = 1,
               aspects = CStr ''Product/Price'', aspects_parsed = PList []\<rparr>]\<rparr>"

definition aspect_named_loaded :: dataframe where
  "aspect_named_loaded =
     \<lparr>columns = [''name'', ''aspectsCount'', ''aspects'', ''aspects_parsed''],
      aspectsCount_dtype = Int64,
      rows = [\<lparr>name = ''aspect'', aspectsCount = 1,
               aspects = CStr ''['Product/Price']'',
               aspects_parsed = PList [PStr ''Product/Price'']\<rparr>]\<rparr>"

definition empty_frame :: dataframe where
  "empty_frame =
     \<lparr>columns = [''name'', ''aspectsCount'', ''aspects'', ''aspects_parsed''],
      aspectsCount_dtype = Int64, rows = []\<rparr>"

definition header_only_csv :: dataframe where
  "header_only_csv =
     \<lparr>columns = [''name'', ''aspectsCount'', ''aspects''], aspectsCount_dtype = Object,
      rows = []\<rparr>"

definition header_only_loaded :: dataframe where
  "header_only_loaded =
     \<lparr>columns = [''name'', ''aspectsCount'', ''aspects'', ''aspects_parsed''],
      aspectsCount_dtype = Object, rows = []\<rparr>"

section \<open>Properties of the field parsers\<close>

lemma str_split_no_sep: "sep \<notin> set s \<Longrightarrow> str_split sep s = [s]"
  by (induction s) (auto simp: Let_def)

lemma str_strip_all_space: "\<forall>c\<in>set s. isspace c \<Longrightarrow> str_strip s = []"
proof -
  assume "\<forall>c\<in>set s. isspace c"
  then have d: "dropWhile isspace s = []" by (simp add: dropWhile_eq_Nil_conv)
  show ?thesis unfolding str_strip_def d by simp
qed

lemma comma_not_space: "\<not> isspace CHR '',''"
  by (simp add: isspace_def)

lemma comma_split_whitespace: "\<forall>c\<in>set s. isspace c \<Longrightarrow> comma_split s = []"
proof -
  assume ws: "\<forall>c\<in>set s. isspace c"
  then have "CHR '','' \<notin> set s" using comma_not_space by blast
  then have "str_split CHR '','' s = [s]" by (rule str_split_no_sep)
  then show ?thesis using ws by (simp add: comma_split_def str_strip_all_space)
qed

lemma comma_split_tokens:
  "comma_split val = [t \<leftarrow> map str_strip (str_split CHR '','' val). t \<noteq> []]"
  by (simp add: comma_split_def filter_map comp_def)

lemma parse_aspects_plain:
  "\<not> (startswith val ''['' \<and> endswith val '']'') \<Longrightarrow>
   parse_aspects lit val = Inr (PList (map PStr (comma_split val)))"
  by (auto simp: parse_aspects_def parse_aspects_body_def)

lemma parse_aspects_returns: "\<exists>v. parse_aspects lit s = Inr v"
  by (simp add: parse_aspects_def split: sum.splits)

lemma aspects_list_upload_returns: "\<exists>v. aspects_list_upload lit x = Inr v"
  by (cases x) (simp_all add: aspects_list_upload_def parse_aspects_returns)

lemma dropWhile_snoc_keep: "\<not> P y \<Longrightarrow> \<exists>zs. dropWhile P (xs @ [y]) = zs @ [y]"
  by (induction xs) auto

lemma startswith_bracket_conv: "startswith s ''['' \<longleftrightarrow> (\<exists>t. s = CHR ''['' # t)"
  by (cases s) (auto simp: startswith_def)

lemma startswith_strip:
  assumes "startswith val ''[''"
  shows "startswith (str_strip val) ''[''"
proof -
  from assms obtain t where val: "val = CHR ''['' # t"
    by (auto simp: startswith_bracket_conv)
  have ns: "\<not> isspace CHR ''[''" by (simp add: isspace_def)
  then have "dropWhile isspace val = val" by (simp add: val)
  moreover obtain zs where "dropWhile isspace (rev t @ [CHR ''['']) = zs @ [CHR ''['']"
    using dropWhile_snoc_keep[where P = isspace and y = "CHR ''[''" and xs = "rev t", OF ns]
    by blast
  ultimately have "str_strip val = CHR ''['' # rev zs"
    by (simp add: str_strip_def val)
  then show ?thesis by (simp add: startswith_def)
qed

lemma apply_aspects_raises:
  "r \<in> set rs \<Longrightarrow> f (aspects r) = Inl e \<Longrightarrow> \<exists>e'. apply_aspects f rs = Inl e'"
  by (induction rs) (auto split: sum.splits)

lemma apply_aspects_cells:
  "apply_aspects f rs = Inr rs' \<Longrightarrow> r' \<in> set rs' \<Longrightarrow> f (aspects r') = Inr (aspects_parsed r')"
  by (induction rs arbitrary: rs') (auto split: sum.splits)

text \<open>
  Claim C1, as the code has it. When a string begins with \<open>[\<close>, ends with \<open>]\<close> and its
  literal decoding raises, \<open>parse_aspects\<close> returns the empty list; it does not split the
  string at its commas. \<open>parse_aspects\<close> and the function applied to the cells on the
  upload page return a value for every input. On the load path the lambda of
  \<open>load_category_data\<close> lets the decoding error through, and the handler of
  \<open>load_category_data\<close> then returns \<open>None\<close> for the whole frame.
\<close>

theorem parse_aspects_malformed_bracket:
  assumes "startswith val ''[''" and "endswith val '']''" and "lit val = Inl e"
  shows "parse_aspects lit val = Inr (PList [])
       \<and> (\<forall>s. \<exists>v. parse_aspects lit s = Inr v)
       \<and> (\<forall>x. \<exists>v. aspects_list_upload lit x = Inr v)
       \<and> (\<forall>sample df max_rows.
            ''aspects'' \<in> set (columns df) \<and> int (length (rows df)) \<le> max_rows
            \<and> (\<exists>r\<in>set (rows df). aspects r = CStr val)
            \<longrightarrow> load_category_data lit sample (Inr df) max_rows = None)"
proof -
  have 1: "parse_aspects lit val = Inr (PList [])"
    using assms by (simp add: parse_aspects_def parse_aspects_body_def)
  have 4: "load_category_data lit sample (Inr df) max_rows = None"
    if cols: "''aspects'' \<in> set (columns df)" and len: "int (length (rows df)) \<le> max_rows"
      and r: "r \<in> set (rows df)" "aspects r = CStr val"
    for sample df max_rows r
  proof -
    have "parse_on_load lit (aspects r) = Inl e"
      using assms(1,3) r(2) by (simp add: parse_on_load_def startswith_strip)
    then obtain e' where "apply_aspects (parse_on_load lit) (rows df) = Inl e'"
      using apply_aspects_raises[OF r(1)] by blast
    then show ?thesis
      using cols len by (simp add: load_category_data_def load_category_data_body_def)
  qed
  from 1 4 show ?thesis
    using parse_aspects_returns aspects_list_upload_returns by blast
qed

text \<open>The theorem at the malformed literal \<open>['a, b]\<close>, whose string is never closed.\<close>

theorem parse_aspects_malformed_bracket_witness:
  "startswith ''['a, b]'' ''['' \<and> endswith ''['a, b]'' '']''
   \<and> literal_eval ''['a, b]'' = Inl SyntaxError
   \<and> parse_aspects literal_eval ''['a, b]'' = Inr (PList [])
   \<and> load_category_data literal_eval no_sample (Inr malformed_csv) 500 = None"
proof -
  have a: "startswith ''['a, b]'' ''[''" by (simp add: startswith_def)
  have b: "endswith ''['a, b]'' '']''" by (simp add: endswith_def)
  have c: "literal_eval ''['a, b]'' = Inl SyntaxError" by (simp add: literal_eval_def)
  have d: "''aspects'' \<in> set (columns malformed_csv) \<and> int (length (rows malformed_csv)) \<le> 500
           \<and> (\<exists>r\<in>set (rows malformed_csv). aspects r = CStr ''['a, b]'')"
    by (simp add: malformed_csv_def)
  from parse_aspects_malformed_bracket[where lit = literal_eval and val = "''['a, b]''", OF a b c]
    a b c d
  show ?thesis by blast
qed

text \<open>
  Claim C1 as stated fails at \<open>['a, b]\<close>: the string is bracketed and does not decode, its
  comma-split has the two tokens \<open>['a\<close> and \<open>b]\<close>, yet \<open>parse_aspects\<close> returns the empty
  list, and the load path returns no frame at all.
\<close>

theorem parse_aspects_no_comma_fallback:
  "startswith ''['a, b]'' ''['' \<and> endswith ''['a, b]'' '']''
   \<and> literal_eval ''['a, b]'' = Inl SyntaxError
   \<and> comma_split ''['a, b]'' = [''['a'', ''b]'']
   \<and> parse_aspects literal_eval ''['a, b]'' = Inr (PList [])
   \<and> load_category_data literal_eval no_sample (Inr malformed_csv) 500 = None"
  by (simp add: startswith_def endswith_def literal_eval_def parse_aspects_def
      parse_aspects_body_def comma_split_def str_strip_def isspace_def
      load_category_data_def load_category_data_body_def malformed_csv_def parse_on_load_def)

text \<open>
  Claim C7 at a field of three blanks and at the field \<open>a, ,b\<close>. \<open>parse_aspects\<close>
  discards the tokens that are empty after trimming, as the claim says
  (\<open>parse_aspects_plain\<close> and \<open>comma_split_whitespace\<close> show it for every field that is
  not bracketed); \<open>process_csv\<close> keeps them and gives a list holding one empty aspect
  for the blanks, and a list with an empty aspect in the middle for \<open>a, ,b\<close>.
\<close>

theorem process_csv_keeps_empty_tokens:
  "process_csv (Inr \<lparr>rf_columns = [''review_id'', ''review_text'', ''category'', ''aspects''],
                     rf_dtype_object = True,
                     rf_aspects = [CStr ''   '', CStr ''a, ,b'']\<rparr>)
     = Some [[[]], [''a'', [], ''b'']]
   \<and> parse_aspects literal_eval ''   '' = Inr (PList [])
   \<and> parse_aspects literal_eval ''a, ,b'' = Inr (PList [PStr ''a'', PStr ''b''])"
  by (simp add: process_csv_def process_csv_cell_def str_strip_def isspace_def
      parse_aspects_def parse_aspects_body_def comma_split_def startswith_def endswith_def)

section \<open>Properties of the frequency table\<close>

lemma sum_counter_add: "sum_list (map snd (counter_add c x)) = Suc (sum_list (map snd c))"
  unfolding counter_add_def
  by (induction c) (auto split: option.splits)

lemma counter_update_sum:
  "counter_update c xs = Inr c' \<Longrightarrow> sum_list (map snd c') = sum_list (map snd c) + length xs"
  by (induction xs arbitrary: c) (auto simp: sum_counter_add split: if_splits)

lemma counter_update_total:
  "list_all hashable xs \<Longrightarrow> \<exists>c'. counter_update c xs = Inr c'"
  by (induction xs arbitrary: c) auto

lemma count_aspects_sum:
  "count_aspects c vs = Inr c' \<Longrightarrow>
   sum_list (map snd c') = sum_list (map snd c) + sum_list (map occurrences vs)"
  by (induction c vs arbitrary: c' rule: count_aspects.induct)
     (auto split: sum.splits dest: counter_update_sum)

lemma count_aspects_total:
  "list_all hashable_items vs \<Longrightarrow> \<exists>c'. count_aspects c vs = Inr c'"
proof (induction c vs rule: count_aspects.induct)
  case (2 c xs vs)
  then obtain c1 where "counter_update c xs = Inr c1"
    using counter_update_total[of xs c] by auto
  with 2 show ?case by auto
qed auto

lemma sum_insort_key: "sum_list (map g (insort_key f x xs)) = g x + sum_list (map g xs)"
  for g :: "'a \<Rightarrow> nat"
  by (induction xs) auto

lemma sum_sort_key: "sum_list (map g (sort_key f xs)) = sum_list (map g xs)"
  for g :: "'a \<Rightarrow> nat"
  by (induction xs) (auto simp: sum_insort_key)

text \<open>
  Claim C2. When the frame has the column \<open>aspects_parsed\<close> and every list in it holds
  hashable elements (strings are), \<open>analyze_category_aspects\<close> returns a table, and the
  counts of the table add up to the number of elements of all the parsed lists, every
  repetition counted.
\<close>

theorem frequency_counts_total:
  assumes "''aspects_parsed'' \<in> set (columns d)"
    and "\<forall>r\<in>set (rows d). hashable_items (aspects_parsed r)"
  shows "\<exists>t. analyze_category_aspects (Some d) = Inr (Some t) \<and>
             sum_list (count_col t) = sum_list (map (\<lambda>r. occurrences (aspects_parsed r)) (rows d))"
proof -
  from assms(2) have "list_all hashable_items (map aspects_parsed (rows d))"
    by (simp add: list_all_iff)
  then obtain c where c: "count_aspects [] (map aspects_parsed (rows d)) = Inr c"
    using count_aspects_total by blast
  from count_aspects_sum[OF c]
  have "sum_list (map snd c) = sum_list (map (\<lambda>r. occurrences (aspects_parsed r)) (rows d))"
    by (simp add: comp_def)
  with c assms(1) show ?thesis
    by (simp add: analyze_category_aspects_def most_common_def sum_sort_key)
qed

text \<open>
  The theorem on a frame where \<open>Product/Price\<close> stands twice in one list and once in
  another: the table counts it three times, and the counts add up to the four elements.
\<close>

theorem frequency_counts_total_witness:
  "analyze_category_aspects (Some repeated_loaded)
     = Inr (Some \<lparr>aspect_col = [PStr ''Product/Price'', PStr ''Service/Staff''],
                  count_col = [3, 1]\<rparr>)
   \<and> sum_list [3, 1 :: nat]
     = sum_list (map (\<lambda>r. occurrences (aspects_parsed r)) (rows repeated_loaded))"
proof -
  have a: "''aspects_parsed'' \<in> set (columns repeated_loaded)"
    by (simp add: repeated_loaded_def)
  have b: "\<forall>r\<in>set (rows repeated_loaded). hashable_items (aspects_parsed r)"
    by (simp add: repeated_loaded_def)
  have c: "analyze_category_aspects (Some repeated_loaded)
     = Inr (Some \<lparr>aspect_col = [PStr ''Product/Price'', PStr ''Service/Staff''],
                  count_col = [3, 1]\<rparr>)"
    by (simp add: analyze_category_aspects_def repeated_loaded_def counter_add_def most_common_def)
  from frequency_counts_total[OF a b] c show ?thesis by auto
qed

subsection \<open>The order of the table\<close>

text \<open>
  The table lists the aspects by descending count; aspects with the same count stand in
  the order the counter holds them, and the counter holds its keys in the order in which
  the parsed lists first mention them.
\<close>

lemma most_common_descending:
  "sorted (map (\<lambda>p. - int (snd p)) (most_common c))"
  by (simp add: most_common_def del: sorted_wrt_map)

lemma most_common_ties:
  "filter (\<lambda>p. snd p = k) (most_common c) = filter (\<lambda>p. snd p = k) c"
  using sort_key_stable[of "\<lambda>p. - int (snd p)" "- int k" c]
  by (simp add: most_common_def)

lemma counter_add_keys:
  "map fst (counter_add c x) = (if x \<in> set (map fst c) then map fst c else map fst c @ [x])"
  by (simp add: counter_add_def AList.update_keys)

lemma first_seen_snoc:
  "first_seen (xs @ [x]) = (if x \<in> set xs then first_seen xs else first_seen xs @ [x])"
  by (simp add: first_seen_def)

lemma remdups_append_remdups: "remdups (ys @ remdups zs) = remdups (ys @ zs)"
  by (induction ys) auto

lemma first_seen_absorb: "first_seen (first_seen as @ bs) = first_seen (as @ bs)"
  by (simp add: first_seen_def remdups_append_remdups)

lemma first_seen_distinct: "distinct xs \<Longrightarrow> first_seen xs = xs"
  by (simp add: first_seen_def distinct_remdups_id)

lemma counter_update_first_seen:
  "counter_update c xs = Inr c' \<Longrightarrow> distinct (map fst c) \<Longrightarrow>
   map fst c' = first_seen (map fst c @ xs)"
proof (induction xs arbitrary: c)
  case Nil
  then show ?case by (simp add: first_seen_distinct)
next
  case (Cons x xs)
  from Cons.prems(1) have rest: "counter_update (counter_add c x) xs = Inr c'"
    by (auto split: if_splits)
  have k: "map fst (counter_add c x) = first_seen (map fst c @ [x])"
    using Cons.prems(2) by (simp add: counter_add_keys first_seen_snoc first_seen_distinct)
  then have "distinct (map fst (counter_add c x))"
    by (simp add: first_seen_def)
  from Cons.IH[OF rest this] show ?case
    unfolding k by (simp add: first_seen_absorb)
qed

lemma count_aspects_first_seen:
  "count_aspects c vs = Inr c' \<Longrightarrow> distinct (map fst c) \<Longrightarrow>
   map fst c' = first_seen (map fst c @ concat (map list_items vs))"
proof (induction c vs arbitrary: c' rule: count_aspects.induct)
  case (1 c)
  then show ?case by (simp add: first_seen_distinct)
next
  case (2 c xs vs)
  from "2.prems"(1) obtain c1 where c1: "counter_update c xs = Inr c1"
    and rest: "count_aspects c1 vs = Inr c'"
    by (auto split: sum.splits)
  note k = counter_update_first_seen[OF c1 "2.prems"(2)]
  then have "distinct (map fst c1)" by (simp add: first_seen_def)
  from "2.IH"[OF c1 rest this] show ?case
    unfolding k by (simp add: first_seen_absorb)
qed auto

lemma count_aspects_keys:
  assumes "count_aspects [] vs = Inr c"
  shows "distinct (map fst c)" and "set (map fst c) = (\<Union>v\<in>set vs. items_of v)"
proof -
  from count_aspects_first_seen[OF assms]
  have k: "map fst c = first_seen (concat (map list_items vs))" by simp
  show "distinct (map fst c)" unfolding k by (simp add: first_seen_def)
  have "set (list_items v) = items_of v" for v by (cases v) simp_all
  then show "set (map fst c) = (\<Union>v\<in>set vs. items_of v)"
    unfolding k by (simp add: first_seen_def)
qed

text \<open>
  The frequency table that \<open>analyze_category_aspects\<close> returns: its aspects are those of
  the parsed lists in the order of their first mention, rearranged by a stable sort on
  descending count.
\<close>

lemma frequency_table_order:
  assumes "analyze_category_aspects (Some d) = Inr (Some t)"
  shows "\<exists>c. map fst c = first_seen (concat (map list_items (map aspects_parsed (rows d))))
           \<and> aspect_col t = map fst (most_common c) \<and> count_col t = map snd (most_common c)
           \<and> sorted (map (\<lambda>p. - int (snd p)) (most_common c))
           \<and> (\<forall>k. filter (\<lambda>p. snd p = k) (most_common c) = filter (\<lambda>p. snd p = k) c)"
proof -
  from assms obtain c where c: "count_aspects [] (map aspects_parsed (rows d)) = Inr c"
    and t: "t = \<lparr>aspect_col = map fst (most_common c), count_col = map snd (most_common c)\<rparr>"
    by (auto simp: analyze_category_aspects_def split: if_splits sum.splits)
  from count_aspects_first_seen[OF c]
  have "map fst c = first_seen (concat (map list_items (map aspects_parsed (rows d))))" by simp
  with t show ?thesis
    using most_common_descending[of c] most_common_ties[of _ c] by auto
qed

text \<open>
  The least-used view is in ascending order of count and holds rows of the table, for
  every sort that does what pandas promises; the order it gives to rows of equal count is
  that of the sort.
\<close>

lemma bottom_aspects_ascending:
  assumes "sorts_by_count sort_by_count"
  shows "sorted (map snd (bottom_aspects sort_by_count t))"
    and "set (bottom_aspects sort_by_count t) \<subseteq> set (zip (aspect_col t) (count_col t))"
proof -
  let ?ps = "zip (aspect_col t) (count_col t)"
  from assms have m: "mset (sort_by_count ?ps) = mset ?ps"
    and s: "sorted (map snd (sort_by_count ?ps))"
    by (simp_all add: sorts_by_count_def)
  from s have "sorted (take (min 20 (length (aspect_col t))) (map snd (sort_by_count ?ps)))"
    by (rule sorted_wrt_take)
  then show "sorted (map snd (bottom_aspects sort_by_count t))"
    by (simp add: bottom_aspects_def Let_def take_map del: sorted_wrt_map)
  from m have "set (sort_by_count ?ps) = set ?ps" by (rule mset_eq_setD)
  then show "set (bottom_aspects sort_by_count t) \<subseteq> set ?ps"
    by (auto simp: bottom_aspects_def Let_def dest!: in_set_takeD)
qed

section \<open>Totality of the analysis functions\<close>

text \<open>
  Claim C5 at the empty collection that the loader itself returns. \<open>pd.read_csv\<close> gives
  every column of a file with a header and no data row the dtype \<open>object\<close>;
  \<open>load_category_data\<close> adds an empty \<open>aspects_parsed\<close> column and returns the frame. On
  this frame \<open>analyze_category_aspects\<close> returns the empty table, as the claim says, and
  \<open>create_aspect_category_matrix\<close> raises \<open>TypeError\<close> in \<open>df.nlargest\<close>: its guard
  covers \<open>None\<close> and the missing column and not the frame without rows.
\<close>

theorem matrix_raises_on_header_only_csv:
  "load_category_data literal_eval no_sample (Inr header_only_csv) 500 = Some header_only_loaded
   \<and> rows header_only_loaded = []
   \<and> analyze_category_aspects (Some header_only_loaded)
       = Inr (Some \<lparr>aspect_col = [], count_col = []\<rparr>)
   \<and> create_aspect_category_matrix stable_descending (Some header_only_loaded) 1000 500
       = Inl TypeError"
  by (simp add: load_category_data_def load_category_data_body_def header_only_csv_def
      header_only_loaded_def add_column_def analyze_category_aspects_def most_common_def
      create_aspect_category_matrix_def most_common_n_def Let_def)

text \<open>
  The error does not depend on the sort inside \<open>df.nlargest\<close> nor on the caps: the dtype
  is checked first.
\<close>

lemma matrix_raises_on_object_dtype:
  assumes "''aspects_parsed'' \<in> set (columns d)" and "''aspectsCount'' \<in> set (columns d)"
    and "aspectsCount_dtype d = Object"
    and "list_all (\<lambda>r. hashable_items (aspects_parsed r)) (rows d)"
  shows "create_aspect_category_matrix sort_values (Some d) max_aspects max_categories
           = Inl TypeError"
proof -
  from assms(4) have "list_all hashable_items (map aspects_parsed (rows d))"
    by (simp add: list_all_iff)
  then obtain c where "count_aspects [] (map aspects_parsed (rows d)) = Inr c"
    using count_aspects_total by blast
  with assms(1-3) show ?thesis
    by (simp add: create_aspect_category_matrix_def Let_def)
qed

text \<open>
  Everywhere else the claim holds. On \<open>None\<close>, on a frame without the column
  \<open>aspects_parsed\<close>, and on a frame that has it together with \<open>name\<close> and an \<open>int64\<close>
  column \<open>aspectsCount\<close> and whose parsed lists hold hashable elements, both functions
  return a value: the explicit \<open>None\<close> in the first two cases, an empty table for a frame
  without rows.
\<close>

lemma analysis_functions_return:
  assumes "well_typed df"
  shows "(\<exists>t. analyze_category_aspects df = Inr t)
       \<and> (\<exists>m. create_aspect_category_matrix sort_values df max_aspects max_categories = Inr m)
       \<and> (df = None \<or> (\<exists>d. df = Some d \<and> ''aspects_parsed'' \<notin> set (columns d))
            \<longrightarrow> analyze_category_aspects df = Inr None
              \<and> create_aspect_category_matrix sort_values df max_aspects max_categories = Inr None)
       \<and> ((\<exists>d. df = Some d \<and> ''aspects_parsed'' \<in> set (columns d) \<and> rows d = [])
            \<longrightarrow> analyze_category_aspects df = Inr (Some \<lparr>aspect_col = [], count_col = []\<rparr>)
              \<and> create_aspect_category_matrix sort_values df max_aspects max_categories
                  = Inr (Some \<lparr>matrix_columns = [], matrix_records = []\<rparr>))"
proof (cases df)
  case None
  then show ?thesis
    by (simp add: analyze_category_aspects_def create_aspect_category_matrix_def)
next
  case (Some d)
  show ?thesis
  proof (cases "''aspects_parsed'' \<in> set (columns d)")
    case False
    with Some show ?thesis
      by (simp add: analyze_category_aspects_def create_aspect_category_matrix_def)
  next
    case True
    with Some assms have cols: "''name'' \<in> set (columns d)" "''aspectsCount'' \<in> set (columns d)"
      and dt: "aspectsCount_dtype d = Int64"
      and items: "list_all (\<lambda>r. hashable_items (aspects_parsed r)) (rows d)"
      by (auto simp: well_typed_def)
    from items have "list_all hashable_items (map aspects_parsed (rows d))"
      by (simp add: list_all_iff)
    then obtain c where c: "count_aspects [] (map aspects_parsed (rows d)) = Inr c"
      using count_aspects_total by blast
    have 1: "\<exists>t. analyze_category_aspects df = Inr t"
      using Some True c by (simp add: analyze_category_aspects_def)
    have 2: "\<exists>m. create_aspect_category_matrix sort_values df max_aspects max_categories = Inr m"
      using Some True c cols dt by (simp add: create_aspect_category_matrix_def Let_def)
    have 3: "analyze_category_aspects df = Inr (Some \<lparr>aspect_col = [], count_col = []\<rparr>)
              \<and> create_aspect_category_matrix sort_values df max_aspects max_categories
                  = Inr (Some \<lparr>matrix_columns = [], matrix_records = []\<rparr>)"
      if "rows d = []"
      using Some True cols dt that
      by (simp add: analyze_category_aspects_def create_aspect_category_matrix_def Let_def
          most_common_def most_common_n_def DataFrame_def first_seen_def)
    from 1 2 3 Some True show ?thesis by auto
  qed
qed

section \<open>Properties of the presence matrix\<close>

lemma map_of_fold_update:
  "map_of (foldl (\<lambda>row c. AList.update c (g c) row) row0 cats) k
     = (if k \<in> set cats then Some (g k) else map_of row0 k)"
  by (induction cats arbitrary: row0) (auto simp: AList.update_conv')

lemma map_of_matrix_row:
  "map_of (matrix_row rs cats a) k
     = (if k \<in> set cats then Some (PInt (presence rs a k))
        else if k = ''aspect'' then Some a else None)"
  unfolding matrix_row_def by (simp add: map_of_fold_update)

lemma sorts_descending_stable: "sorts_descending stable_descending"
  by (simp add: sorts_descending_def stable_descending_def del: sorted_wrt_map)

lemma filter_key_distinct:
  "distinct (map g rs) \<Longrightarrow> r \<in> set rs \<Longrightarrow> filter (\<lambda>r'. g r' = g r) rs = [r]"
proof (induction rs)
  case Nil
  then show ?case by simp
next
  case (Cons x rs)
  show ?case
  proof (cases "x = r")
    case True
    with Cons.prems have "\<forall>r'\<in>set rs. g r' \<noteq> g r"
      by (metis distinct.simps(2) image_eqI list.simps(9) set_map)
    then have "filter (\<lambda>r'. g r' = g r) rs = []" by (simp add: filter_empty_conv)
    with True show ?thesis by simp
  next
    case False
    with Cons.prems have "r \<in> set rs" "g x \<noteq> g r" by auto
    with Cons show ?thesis by simp
  qed
qed

text \<open>
  On rows with pairwise different \<open>aspectsCount\<close> the sort has one possible result, the
  one of the stable sort: the examples below use such rows, so they hold for the sort
  that pandas runs.
\<close>

lemma sorts_descending_unique:
  assumes "sorts_descending sort_values" and "distinct (map aspectsCount rs)"
  shows "sort_values rs = stable_descending rs"
proof -
  let ?f = "\<lambda>r. - aspectsCount r"
  let ?ys = "sort_values rs"
  from assms(1) have m: "mset ?ys = mset rs" and s: "sorted (map ?f ?ys)"
    by (simp_all add: sorts_descending_def)
  from m have "mset (map aspectsCount ?ys) = mset (map aspectsCount rs)"
    by (metis mset_map)
  then have d: "distinct (map aspectsCount ?ys)"
    using assms(2) mset_eq_imp_distinct_iff by blast
  have "filter (\<lambda>x. ?f k = ?f x) ?ys = filter (\<lambda>x. ?f k = ?f x) rs" if k: "k \<in> set ?ys" for k
  proof -
    from k m have k': "k \<in> set rs" by (metis mset_eq_setD)
    have "filter (\<lambda>x. aspectsCount x = aspectsCount k) ?ys = [k]"
      using d k by (rule filter_key_distinct)
    moreover have "filter (\<lambda>x. aspectsCount x = aspectsCount k) rs = [k]"
      using assms(2) k' by (rule filter_key_distinct)
    ultimately show ?thesis by (simp add: eq_commute)
  qed
  from properties_for_sort_key[OF m this s] show ?thesis
    by (simp add: stable_descending_def)
qed

lemma sort_values_mset: "sorts_descending sort_values \<Longrightarrow> mset (sort_values rs) = mset rs"
  by (simp add: sorts_descending_def)

lemma sort_values_set: "sorts_descending sort_values \<Longrightarrow> set (sort_values rs) = set rs"
  by (metis sort_values_mset mset_eq_setD)

lemma sort_values_length:
  "sorts_descending sort_values \<Longrightarrow> length (sort_values rs) = length rs"
  by (metis sort_values_mset mset_eq_length)

lemma set_nlargest: "sorts_descending sort_values \<Longrightarrow> set (nlargest sort_values n rs) \<subseteq> set rs"
  by (auto simp: nlargest_def sort_values_set dest!: in_set_takeD)

lemma matrix_records_DataFrame: "matrix_records (DataFrame recs) = recs"
  by (simp add: DataFrame_def)

lemma create_matrix_records:
  assumes "create_aspect_category_matrix sort_values (Some d) max_aspects max_categories = Inr (Some m)"
  shows "matrix_records m
           = map (matrix_row (rows d) (map name (nlargest sort_values max_categories (rows d))))
               (selected_aspects d max_aspects)"
  using assms
  by (auto simp: create_aspect_category_matrix_def selected_aspects_def Let_def
      matrix_records_DataFrame split: if_splits sum.splits)

lemma presence_distinct:
  "distinct (map name rs) \<Longrightarrow> r \<in> set rs \<Longrightarrow>
   presence rs a (name r) = (if occurs_in a (aspects_parsed r) then 1 else 0)"
  by (cases "aspects_parsed r") (simp_all add: presence_def filter_key_distinct)

text \<open>
  Claim C3. Let the matrix be built from a frame whose category names are pairwise
  different. Its rows are the selected aspects in order, and in the row of a selected
  aspect the cell under a selected category is the integer 1 when the aspect is an
  element of that category's parsed list and 0 when it is not (or when the parsed cell is
  no list); elements are compared by equality, which on strings is the exact,
  case-sensitive match. Unless a selected category is itself called \<open>aspect\<close>, the row
  carries its aspect under the key \<open>aspect\<close>.
\<close>

theorem matrix_cell_presence:
  assumes "create_aspect_category_matrix sort_values (Some d) max_aspects max_categories = Inr (Some m)"
    and "distinct (map name (rows d))"
    and "sorts_descending sort_values"
  shows "length (matrix_records m) = length (selected_aspects d max_aspects)
       \<and> (\<forall>i<length (selected_aspects d max_aspects).
            \<forall>r\<in>set (nlargest sort_values max_categories (rows d)).
              map_of (matrix_records m ! i) (name r)
                = Some (PInt (if occurs_in (selected_aspects d max_aspects ! i) (aspects_parsed r)
                              then 1 else 0)))
       \<and> (''aspect'' \<notin> set (map name (nlargest sort_values max_categories (rows d))) \<longrightarrow>
            (\<forall>i<length (selected_aspects d max_aspects).
               map_of (matrix_records m ! i) ''aspect'' = Some (selected_aspects d max_aspects ! i)))"
proof -
  note recs = create_matrix_records[OF assms(1)]
  have len: "length (matrix_records m) = length (selected_aspects d max_aspects)"
    by (simp add: recs)
  have cell: "map_of (matrix_records m ! i) (name r)
                = Some (PInt (if occurs_in (selected_aspects d max_aspects ! i) (aspects_parsed r)
                              then 1 else 0))"
    if i: "i < length (selected_aspects d max_aspects)"
      and r: "r \<in> set (nlargest sort_values max_categories (rows d))" for i r
  proof -
    from r have "r \<in> set (rows d)" using set_nlargest[OF assms(3)] by blast
    from presence_distinct[OF assms(2) this]
    have "presence (rows d) (selected_aspects d max_aspects ! i) (name r)
            = (if occurs_in (selected_aspects d max_aspects ! i) (aspects_parsed r) then 1 else 0)" .
    moreover have "name r \<in> set (map name (nlargest sort_values max_categories (rows d)))"
      using r by simp
    ultimately show ?thesis
      using i by (simp add: recs map_of_matrix_row del: set_map)
  qed
  have label: "map_of (matrix_records m ! i) ''aspect'' = Some (selected_aspects d max_aspects ! i)"
    if "''aspect'' \<notin> set (map name (nlargest sort_values max_categories (rows d)))"
      and "i < length (selected_aspects d max_aspects)" for i
    using that by (simp add: recs map_of_matrix_row del: set_map)
  from len cell label show ?thesis by blast
qed

text \<open>
  The theorem on the frame with the lists \<open>[Product/Price, Service/Staff, Product/Price]\<close>
  for \<open>Electronics\<close> and \<open>[Product/Price]\<close> for \<open>Food\<close>, with both caps 2.
\<close>

theorem matrix_cell_presence_witness:
  "create_aspect_category_matrix stable_descending (Some repeated_loaded) 2 2 = Inr (Some repeated_matrix)
   \<and> distinct (map name (rows repeated_loaded))
   \<and> selected_aspects repeated_loaded 2 = [PStr ''Product/Price'', PStr ''Service/Staff'']
   \<and> map name (nlargest stable_descending 2 (rows repeated_loaded)) = [''Electronics'', ''Food'']
   \<and> map_of (matrix_records repeated_matrix ! 0) ''Electronics'' = Some (PInt 1)
   \<and> map_of (matrix_records repeated_matrix ! 0) ''Food'' = Some (PInt 1)
   \<and> map_of (matrix_records repeated_matrix ! 1) ''Electronics'' = Some (PInt 1)
   \<and> map_of (matrix_records repeated_matrix ! 1) ''Food'' = Some (PInt 0)"
proof -
  have a: "create_aspect_category_matrix stable_descending (Some repeated_loaded) 2 2 = Inr (Some repeated_matrix)"
    by (simp add: create_aspect_category_matrix_def repeated_loaded_def repeated_matrix_def
        counter_add_def most_common_n_def most_common_def nlargest_def stable_descending_def
        matrix_row_def presence_def DataFrame_def first_seen_def Let_def)
  have b: "distinct (map name (rows repeated_loaded))"
    by (simp add: repeated_loaded_def)
  have c: "selected_aspects repeated_loaded 2 = [PStr ''Product/Price'', PStr ''Service/Staff'']"
    by (simp add: selected_aspects_def repeated_loaded_def counter_add_def most_common_n_def
        most_common_def)
  have d: "nlargest stable_descending 2 (rows repeated_loaded) = rows repeated_loaded"
    by (simp add: nlargest_def stable_descending_def repeated_loaded_def)
  have e: "map name (rows repeated_loaded) = [''Electronics'', ''Food'']"
    by (simp add: repeated_loaded_def)
  from matrix_cell_presence[OF a b sorts_descending_stable]
  have cells: "\<forall>i<2. \<forall>r\<in>set (rows repeated_loaded).
      map_of (matrix_records repeated_matrix ! i) (name r)
        = Some (PInt (if occurs_in ([PStr ''Product/Price'', PStr ''Service/Staff''] ! i)
                           (aspects_parsed r) then 1 else 0))"
    by (simp add: c d)
  from cells have "\<forall>r\<in>set (rows repeated_loaded).
      map_of (matrix_records repeated_matrix ! 0) (name r)
        = Some (PInt (if occurs_in (PStr ''Product/Price'') (aspects_parsed r) then 1 else 0))"
    by force
  then have r0: "map_of (matrix_records repeated_matrix ! 0) ''Electronics'' = Some (PInt 1)"
    "map_of (matrix_records repeated_matrix ! 0) ''Food'' = Some (PInt 1)"
    by (simp_all add: repeated_loaded_def)
  from cells have "\<forall>r\<in>set (rows repeated_loaded).
      map_of (matrix_records repeated_matrix ! 1) (name r)
        = Some (PInt (if occurs_in (PStr ''Service/Staff'') (aspects_parsed r) then 1 else 0))"
    by force
  then have r1: "map_of (matrix_records repeated_matrix ! 1) ''Electronics'' = Some (PInt 1)"
    "map_of (matrix_records repeated_matrix ! 1) ''Food'' = Some (PInt 0)"
    by (simp_all add: repeated_loaded_def)
  from a b c d e r0 r1 show ?thesis by simp
qed

subsection \<open>The shape of the matrix\<close>

text \<open>
  Claim C6 at a frame that has the column \<open>aspects_parsed\<close> and no aspect in it, here the
  frame that loading one category with a plain comma-separated field gives: no aspect is
  selected, the list of row dictionaries is empty, and the frame built from it has no
  column at all, not the column \<open>aspect\<close> and one column for the category. The comment
  at the end of \<open>create_aspect_category_matrix\<close> announces the column \<open>aspect\<close>, and the
  page that shows the matrix reads it. A category that is itself called \<open>aspect\<close> takes
  the key of the label, and the matrix has one column where the claim counts two.
\<close>

theorem matrix_without_aspects_has_no_columns:
  "load_category_data literal_eval no_sample (Inr plain_csv) 500 = Some plain_loaded
   \<and> create_aspect_category_matrix stable_descending (Some plain_loaded) 1000 500
       = Inr (Some \<lparr>matrix_columns = [], matrix_records = []\<rparr>)
   \<and> create_aspect_category_matrix stable_descending (Some aspect_named_loaded) 1000 500
       = Inr (Some \<lparr>matrix_columns = [''aspect''], matrix_records = [[(''aspect'', PInt 1)]]\<rparr>)"
  by (simp add: load_category_data_def load_category_data_body_def plain_csv_def plain_loaded_def
      parse_on_load_def startswith_def str_strip_def isspace_def add_column_def
      create_aspect_category_matrix_def most_common_n_def most_common_def nlargest_def
      stable_descending_def DataFrame_def first_seen_def aspect_named_loaded_def counter_add_def matrix_row_def
      presence_def Let_def)

text \<open>
  Where at least one aspect is selected, the category names are pairwise different and
  none of them is \<open>aspect\<close>, the matrix has the shape the claim gives: one row for each
  of the \<open>min(max_aspects, distinct aspects)\<close> selected aspects, the column \<open>aspect\<close>, and
  one column for each of the \<open>min(max_categories, categories)\<close> selected categories.
  The selected categories are those of the first rows of the frame sorted by descending
  \<open>aspectsCount\<close> with equal counts in their original order; they stand in that order
  when the cap is below the number of rows, and in the order of \<open>sort_values\<close> when it
  is not.
\<close>

lemma length_most_common_n: "length (most_common_n n c) = min (nat n) (length c)"
  by (auto simp: most_common_n_def most_common_def min_def)

lemma length_nlargest:
  "sorts_descending sort_values \<Longrightarrow>
   length (nlargest sort_values n rs) = min (nat n) (length rs)"
  by (auto simp: nlargest_def sort_values_length min_def)

lemma nlargest_descending:
  assumes "sorts_descending sort_values"
  shows "sorted (map (\<lambda>r. - aspectsCount r) (nlargest sort_values n rs))"
proof -
  have "sorted (map (\<lambda>r. - aspectsCount r) (sort_key (\<lambda>r. - aspectsCount r) rs))"
    by (simp del: sorted_wrt_map)
  then have 1: "sorted (take (nat n) (map (\<lambda>r. - aspectsCount r)
                   (sort_key (\<lambda>r. - aspectsCount r) rs)))"
    by (rule sorted_wrt_take)
  from assms have "sorted (map (\<lambda>r. - aspectsCount r) (sort_values rs))"
    by (simp add: sorts_descending_def)
  then have 2: "sorted (take (nat n) (map (\<lambda>r. - aspectsCount r) (sort_values rs)))"
    by (rule sorted_wrt_take)
  from 1 2 show ?thesis by (simp add: nlargest_def take_map del: sorted_wrt_map)
qed

lemma nlargest_below:
  "0 < n \<Longrightarrow> n < int (length rs) \<Longrightarrow>
   nlargest sort_values n rs = take (nat n) (sort_key (\<lambda>r. - aspectsCount r) rs)"
  by (simp add: nlargest_def)

lemma nlargest_selected:
  assumes "sorts_descending sort_values"
  shows "set (nlargest sort_values n rs) = set (take (nat n) (sort_key (\<lambda>r. - aspectsCount r) rs))"
proof (cases "0 < n \<and> int (length rs) \<le> n")
  case True
  then have "length rs \<le> nat n" by linarith
  with True assms show ?thesis
    by (simp add: nlargest_def sort_values_set sort_values_length)
next
  case False
  then show ?thesis by (auto simp: nlargest_def)
qed

lemma nlargest_ties:
  "filter (\<lambda>r. aspectsCount r = k) (sort_key (\<lambda>r. - aspectsCount r) rs)
     = filter (\<lambda>r. aspectsCount r = k) rs"
  using sort_key_stable[of "\<lambda>r. - aspectsCount r" "- k" rs] by simp

lemma selected_aspects_count:
  assumes "count_aspects [] (map aspects_parsed (rows d)) = Inr c"
  shows "length (selected_aspects d max_aspects)
           = min (nat max_aspects) (card (\<Union>r\<in>set (rows d). items_of (aspects_parsed r)))"
proof -
  from count_aspects_keys[OF assms] have "distinct (map fst c)"
    and "set (map fst c) = (\<Union>r\<in>set (rows d). items_of (aspects_parsed r))" by auto
  then have "length c = card (\<Union>r\<in>set (rows d). items_of (aspects_parsed r))"
    by (metis distinct_card length_map)
  then show ?thesis
    using assms by (simp add: selected_aspects_def length_most_common_n)
qed

lemma distinct_names_nlargest:
  assumes "sorts_descending sort_values" and "distinct (map name rs)"
  shows "distinct (map name (nlargest sort_values n rs))"
proof -
  have "mset (map name (sort_values rs)) = mset (map name rs)"
    using sort_values_mset[OF assms(1)] by (metis mset_map)
  then have 1: "distinct (map name (sort_values rs))"
    using assms(2) mset_eq_imp_distinct_iff by blast
  have "mset (map name (sort_key (\<lambda>r. - aspectsCount r) rs)) = mset (map name rs)"
    by simp
  then have 2: "distinct (map name (sort_key (\<lambda>r. - aspectsCount r) rs))"
    using assms(2) mset_eq_imp_distinct_iff by blast
  from 1 2 show ?thesis
    by (auto simp: nlargest_def take_map[symmetric] simp del: distinct_map mset_map)
qed

lemma fold_update_keys:
  "distinct (map fst row0 @ cats) \<Longrightarrow>
   map fst (foldl (\<lambda>row c. AList.update c (g c) row) row0 cats) = map fst row0 @ cats"
proof (induction cats arbitrary: row0)
  case Nil
  then show ?case by simp
next
  case (Cons c cats)
  from Cons.prems have k: "map fst (AList.update c (g c) row0) = map fst row0 @ [c]"
    by (simp add: AList.update_keys)
  from Cons.prems have "distinct (map fst (AList.update c (g c) row0) @ cats)"
    unfolding k by auto
  from Cons.IH[OF this] show ?case by (simp add: k)
qed

lemma matrix_row_keys:
  "distinct cats \<Longrightarrow> ''aspect'' \<notin> set cats \<Longrightarrow>
   map fst (matrix_row rs cats a) = ''aspect'' # cats"
  unfolding matrix_row_def by (subst fold_update_keys) auto

lemma remdups_absorb: "set as \<subseteq> set bs \<Longrightarrow> remdups (as @ bs) = remdups bs"
  by (induction as) auto

lemma first_seen_repeat:
  assumes "distinct ks" and "set ys \<subseteq> set ks"
  shows "first_seen (ks @ ys) = ks"
proof -
  have "remdups (rev ys @ rev ks) = remdups (rev ks)"
    using assms(2) by (intro remdups_absorb) simp
  with assms(1) show ?thesis by (simp add: first_seen_def distinct_remdups_id)
qed

lemma matrix_columns_shape:
  assumes "create_aspect_category_matrix sort_values (Some d) max_aspects max_categories = Inr (Some m)"
    and "selected_aspects d max_aspects \<noteq> []"
    and "distinct (map name (rows d))"
    and "''aspect'' \<notin> set (map name (rows d))"
    and "sorts_descending sort_values"
  shows "matrix_columns m = ''aspect'' # map name (nlargest sort_values max_categories (rows d))"
proof -
  let ?cats = "map name (nlargest sort_values max_categories (rows d))"
  have dc: "distinct ?cats" using assms(5,3) by (rule distinct_names_nlargest)
  have na: "''aspect'' \<notin> set ?cats"
    using assms(4) set_nlargest[OF assms(5), of max_categories "rows d"] by auto
  have keys: "map fst (matrix_row (rows d) ?cats a) = ''aspect'' # ?cats" for a
    using dc na by (rule matrix_row_keys)
  from assms(1)
  have m: "m = DataFrame (map (matrix_row (rows d) ?cats) (selected_aspects d max_aspects))"
    by (auto simp: create_aspect_category_matrix_def selected_aspects_def Let_def
        split: if_splits sum.splits)
  from assms(2) obtain a as where sel: "selected_aspects d max_aspects = a # as"
    by (cases "selected_aspects d max_aspects") auto
  have "map (map fst) (map (matrix_row (rows d) ?cats) as) = map (\<lambda>a. ''aspect'' # ?cats) as"
    by (simp add: keys)
  then have "set (concat (map (map fst) (map (matrix_row (rows d) ?cats) as)))
               \<subseteq> set (''aspect'' # ?cats)"
    by (simp only:) auto
  with dc na have "first_seen ((''aspect'' # ?cats)
       @ concat (map (map fst) (map (matrix_row (rows d) ?cats) as))) = ''aspect'' # ?cats"
    by (intro first_seen_repeat) auto
  then show ?thesis
    by (simp add: m sel DataFrame_def keys)
qed

lemma matrix_shape:
  assumes "create_aspect_category_matrix sort_values (Some d) max_aspects max_categories = Inr (Some m)"
    and "selected_aspects d max_aspects \<noteq> []"
    and "distinct (map name (rows d))"
    and "''aspect'' \<notin> set (map name (rows d))"
    and "sorts_descending sort_values"
  shows "length (matrix_records m)
           = min (nat max_aspects) (card (\<Union>r\<in>set (rows d). items_of (aspects_parsed r)))"
    and "length (matrix_columns m) = 1 + min (nat max_categories) (length (rows d))"
proof -
  from assms(1) obtain c where "count_aspects [] (map aspects_parsed (rows d)) = Inr c"
    by (auto simp: create_aspect_category_matrix_def split: if_splits sum.splits)
  from selected_aspects_count[OF this] create_matrix_records[OF assms(1)]
  show "length (matrix_records m)
           = min (nat max_aspects) (card (\<Union>r\<in>set (rows d). items_of (aspects_parsed r)))"
    by simp
  from matrix_columns_shape[OF assms]
  show "length (matrix_columns m) = 1 + min (nat max_categories) (length (rows d))"
    by (simp add: length_nlargest[OF assms(5)])
qed

section \<open>The load path\<close>

lemma load_from_aspects:
  assumes "load_category_data lit sample csv max_rows = Some df"
    and "''aspects'' \<in> set (columns df)"
  shows "\<exists>rs. apply_aspects (parse_on_load lit) rs = Inr (rows df)"
    and "''aspects_parsed'' \<in> set (columns df)"
  using assms
  by (auto simp: load_category_data_def load_category_data_body_def add_column_def
      split: sum.splits if_splits)

lemma parse_on_load_plain: "\<not> bracketed x \<Longrightarrow> parse_on_load lit x = Inr (PList [])"
  by (cases x) (simp_all add: parse_on_load_def bracketed_def)

lemma parse_on_load_bracketed: "bracketed (CStr s) \<Longrightarrow> parse_on_load lit (CStr s) = lit s"
  by (simp add: parse_on_load_def bracketed_def)

lemma count_aspects_skip_empty:
  "\<forall>r\<in>set rs. \<not> P r \<longrightarrow> aspects_parsed r = PList [] \<Longrightarrow>
   count_aspects c (map aspects_parsed (filter P rs)) = count_aspects c (map aspects_parsed rs)"
proof (induction rs arbitrary: c)
  case Nil
  then show ?case by simp
next
  case (Cons r rs)
  show ?case
  proof (cases "P r")
    case True
    with Cons show ?thesis
      by (cases "aspects_parsed r") (auto split: sum.splits)
  next
    case False
    with Cons show ?thesis by simp
  qed
qed

lemma example_load:
  "load_category_data literal_eval no_sample (Inr example_csv) 500 = Some example_loaded"
  by (simp add: load_category_data_def load_category_data_body_def example_csv_def
      example_loaded_def parse_on_load_def startswith_def str_strip_def isspace_def
      literal_eval_def add_column_def)

text \<open>
  Claim C10. Let \<open>load_category_data\<close> return a frame that has the column \<open>aspects\<close>. In
  each row, a cell that is a string whose stripped value starts with \<open>[\<close> has been
  decoded by literal evaluation, and \<open>aspects_parsed\<close> holds the decoded value; for every
  other cell, a plain comma-separated string among them, \<open>aspects_parsed\<close> is the empty
  list. The rows of the second kind add nothing to the counter that both analysis
  functions build, so the frequency table is the one of the frame without them and the
  matrix selects the same aspects; and in a frame with pairwise different names every
  matrix cell under such a category is 0.
\<close>

theorem load_path_parses_bracketed_only:
  assumes "load_category_data lit sample csv max_rows = Some df"
    and "''aspects'' \<in> set (columns df)"
  shows "(\<forall>r\<in>set (rows df). \<forall>s. aspects r = CStr s \<and> bracketed (aspects r)
            \<longrightarrow> lit s = Inr (aspects_parsed r))
       \<and> (\<forall>r\<in>set (rows df). \<not> bracketed (aspects r) \<longrightarrow> aspects_parsed r = PList [])
       \<and> analyze_category_aspects (Some df)
           = analyze_category_aspects
               (Some (df\<lparr>rows := filter (\<lambda>r. bracketed (aspects r)) (rows df)\<rparr>))
       \<and> count_aspects [] (map aspects_parsed (rows df))
           = count_aspects [] (map aspects_parsed (filter (\<lambda>r. bracketed (aspects r)) (rows df)))
       \<and> (distinct (map name (rows df)) \<longrightarrow>
            (\<forall>r\<in>set (rows df). \<not> bracketed (aspects r)
               \<longrightarrow> (\<forall>a. presence (rows df) a (name r) = 0)))"
proof -
  from load_from_aspects[OF assms] obtain rs where
    rs: "apply_aspects (parse_on_load lit) rs = Inr (rows df)" by blast
  have cells: "parse_on_load lit (aspects r) = Inr (aspects_parsed r)" if "r \<in> set (rows df)" for r
    using apply_aspects_cells[OF rs that] .
  have a: "lit s = Inr (aspects_parsed r)"
    if "r \<in> set (rows df)" "aspects r = CStr s" "bracketed (aspects r)" for r s
    using cells[OF that(1)] that(2,3) by (simp add: parse_on_load_bracketed)
  have b: "aspects_parsed r = PList []" if "r \<in> set (rows df)" "\<not> bracketed (aspects r)" for r
    using cells[OF that(1)] that(2) by (simp add: parse_on_load_plain)
  have c: "count_aspects [] (map aspects_parsed (filter (\<lambda>r. bracketed (aspects r)) (rows df)))
           = count_aspects [] (map aspects_parsed (rows df))"
    by (rule count_aspects_skip_empty) (simp add: b)
  then have d: "analyze_category_aspects (Some df)
           = analyze_category_aspects
               (Some (df\<lparr>rows := filter (\<lambda>r. bracketed (aspects r)) (rows df)\<rparr>))"
    by (simp add: analyze_category_aspects_def)
  have e: "presence (rows df) x (name r) = 0"
    if "distinct (map name (rows df))" "r \<in> set (rows df)" "\<not> bracketed (aspects r)" for r x
    using presence_distinct[OF that(1,2)] b[OF that(2,3)] by simp
  from a b c d e show ?thesis by (intro conjI ballI allI impI) auto
qed

text \<open>
  The theorem on the two categories of the end-to-end scenario: the plain field
  \<open>Product/Price\<close> of \<open>Food\<close> is parsed to the empty list, the table counts
  \<open>Product/Price\<close> once, and the cell of \<open>Product/Price\<close> under \<open>Food\<close> is 0.
\<close>

theorem load_path_parses_bracketed_only_witness:
  "load_category_data literal_eval no_sample (Inr example_csv) 500 = Some example_loaded
   \<and> ''aspects'' \<in> set (columns example_loaded)
   \<and> \<not> bracketed (CStr ''Product/Price'')
   \<and> map aspects_parsed (rows example_loaded)
       = [PList [PStr ''Product/Price'', PStr ''Service/Staff''], PList []]
   \<and> analyze_category_aspects (Some example_loaded)
       = analyze_category_aspects (Some (example_loaded\<lparr>rows := [hd (rows example_loaded)]\<rparr>))
   \<and> analyze_category_aspects (Some example_loaded)
       = Inr (Some \<lparr>aspect_col = [PStr ''Product/Price'', PStr ''Service/Staff''],
                    count_col = [1, 1]\<rparr>)
   \<and> presence (rows example_loaded) (PStr ''Product/Price'') ''Food'' = 0"
proof -
  have a: "load_category_data literal_eval no_sample (Inr example_csv) 500 = Some example_loaded"
    by (rule example_load)
  have b: "''aspects'' \<in> set (columns example_loaded)"
    by (simp add: example_loaded_def)
  have c: "\<not> bracketed (CStr ''Product/Price'')"
    by (simp add: bracketed_def startswith_def str_strip_def isspace_def)
  have d: "filter (\<lambda>r. bracketed (aspects r)) (rows example_loaded) = [hd (rows example_loaded)]"
    by (simp add: example_loaded_def bracketed_def startswith_def str_strip_def isspace_def)
  have e: "analyze_category_aspects (Some (example_loaded\<lparr>rows := [hd (rows example_loaded)]\<rparr>))
       = Inr (Some \<lparr>aspect_col = [PStr ''Product/Price'', PStr ''Service/Staff''],
                    count_col = [1, 1]\<rparr>)"
    by (simp add: analyze_category_aspects_def example_loaded_def counter_add_def most_common_def)
  have f: "distinct (map name (rows example_loaded))"
    by (simp add: example_loaded_def)
  have g: "\<lparr>name = ''Food'', aspectsCount = 1, aspects = CStr ''Product/Price'',
            aspects_parsed = PList []\<rparr> \<in> set (rows example_loaded)"
    by (simp add: example_loaded_def)
  note t = load_path_parses_bracketed_only[OF a b]
  from t have "analyze_category_aspects (Some example_loaded)
       = analyze_category_aspects (Some (example_loaded\<lparr>rows := [hd (rows example_loaded)]\<rparr>))"
    by (simp only: d)
  moreover from t f g c have "presence (rows example_loaded) (PStr ''Product/Price'') ''Food'' = 0"
    by fastforce
  moreover have "map aspects_parsed (rows example_loaded)
       = [PList [PStr ''Product/Price'', PStr ''Service/Staff''], PList []]"
    by (simp add: example_loaded_def)
  ultimately show ?thesis using a b c e by simp
qed

section \<open>Properties of the summary statistics\<close>

text \<open>
  Claim C9. For a loaded frame with the column \<open>aspectsCount\<close> the header computes: the
  total, which is the number of rows; the number of rows whose \<open>aspectsCount\<close> is
  positive; their difference; and the mean of \<open>aspectsCount\<close>, the sum over the number of
  rows, which is \<open>NaN\<close> and no error when there is no row.
\<close>

theorem summary_statistics_rollups:
  assumes "''aspectsCount'' \<in> set (columns d)"
  shows "\<exists>s. summary_statistics d = Inr s
           \<and> total_categories s = int (length (rows d))
           \<and> categories_with_aspects s = int (length (filter (\<lambda>r. aspectsCount r > 0) (rows d)))
           \<and> categories_without_aspects s = total_categories s - categories_with_aspects s
           \<and> avg_aspects s =
               (if rows d = [] then FNaN
                else Float (real_of_int (sum_list (map aspectsCount (rows d)))
                            / real (length (rows d))))"
  using assms by (simp add: summary_statistics_def Let_def mean_def)

text \<open>
  The theorem on the two-row example, which gives 2, 2, 0 and 1.5, and on a frame without
  rows, which gives \<open>NaN\<close> as the mean.
\<close>

theorem summary_statistics_rollups_witness:
  "''aspectsCount'' \<in> set (columns example_loaded)
   \<and> summary_statistics example_loaded
       = Inr \<lparr>total_categories = 2, categories_with_aspects = 2,
              categories_without_aspects = 0, avg_aspects = Float 1.5\<rparr>
   \<and> summary_statistics empty_frame
       = Inr \<lparr>total_categories = 0, categories_with_aspects = 0,
              categories_without_aspects = 0, avg_aspects = FNaN\<rparr>"
proof -
  have a: "''aspectsCount'' \<in> set (columns example_loaded)"
    by (simp add: example_loaded_def)
  have b: "''aspectsCount'' \<in> set (columns empty_frame)"
    by (simp add: empty_frame_def)
  from summary_statistics_rollups[OF a] obtain s where
    s: "summary_statistics example_loaded = Inr s" "total_categories s = 2"
       "categories_with_aspects s = 2" "categories_without_aspects s = 0"
       "avg_aspects s = Float 1.5"
    by (auto simp: example_loaded_def)
  from summary_statistics_rollups[OF b] obtain s0 where
    s0: "summary_statistics empty_frame = Inr s0"
       "total_categories s0 = 0"
       "categories_with_aspects s0 = 0" "categories_without_aspects s0 = 0"
       "avg_aspects s0 = FNaN"
    by (auto simp: empty_frame_def)
  from s have "s = \<lparr>total_categories = 2, categories_with_aspects = 2,
              categories_without_aspects = 0, avg_aspects = Float 1.5\<rparr>" by (cases s) simp
  moreover from s0 have "s0 = \<lparr>total_categories = 0, categories_with_aspects = 0,
              categories_without_aspects = 0, avg_aspects = FNaN\<rparr>" by (cases s0) simp
  ultimately show ?thesis using a s(1) s0(1) by simp
qed

end
